theory Spec2Isabelle
  imports Main "HOL-Library.Word"
begin

section \<open>Blocks of NWScript bytecode (src/nwscript/block.h)\<close>

subsection \<open>Data model\<close>

text \<open>
  Blocks, instructions and subroutines refer to each other by address
  (\<^verbatim>\<open>const Block *\<close>, \<^verbatim>\<open>const Instruction *\<close>, \<^verbatim>\<open>const SubRoutine *\<close>).
  A pointer is modelled by the address it holds; a pointer that may be 0
  (\<^verbatim>\<open>subRoutine\<close>) is an option.
\<close>

type_synonym block_ptr = nat
type_synonym instruction_ptr = nat
type_synonym subroutine_ptr = nat

text \<open>\<^verbatim>\<open>enum BlockEdgeType\<close>, in the order of the header.\<close>

datatype BlockEdgeType =
    kBlockEdgeTypeUnconditional
  | kBlockEdgeTypeConditionalTrue
  | kBlockEdgeTypeConditionalFalse
  | kBlockEdgeTypeFunctionCall
  | kBlockEdgeTypeFunctionReturn
  | kBlockEdgeTypeStoreState
  | kBlockEdgeTypeDead

text \<open>
  Modelled from the spec: \<^verbatim>\<open>enum StackAnalyzeState\<close> is declared in
  src/nwscript/stack.h, which is missing. block.h names only its value
  \<^verbatim>\<open>kStackAnalyzeStateNone\<close>; the spec gives the marker three values,
  unvisited, in-progress and done.
\<close>

datatype StackAnalyzeState =
    kStackAnalyzeStateNone
  | kStackAnalyzeStateInProgress
  | kStackAnalyzeStateDone

text \<open>\<^verbatim>\<open>struct Block\<close>, field by field.\<close>

record Block =
  address :: "32 word"
  instructions :: "instruction_ptr list"
  parents :: "block_ptr list"
  children :: "block_ptr list"
  childrenTypes :: "BlockEdgeType list"
  subRoutine :: "subroutine_ptr option"
  stackAnalyzeState :: StackAnalyzeState

text \<open>
  The constructor \<^verbatim>\<open>Block(uint32 addr)\<close>: the address is set, the subroutine is 0,
  the marker is \<^verbatim>\<open>kStackAnalyzeStateNone\<close>, and the vectors start out empty.
\<close>

definition Block_new :: "32 word \<Rightarrow> Block" where
  "Block_new addr =
     \<lparr> address = addr, instructions = [], parents = [], children = [],
       childrenTypes = [], subRoutine = None,
       stackAnalyzeState = kStackAnalyzeStateNone \<rparr>"

subsection \<open>The predicates on a block's children\<close>

text \<open>
  \<^verbatim>\<open>Block::hasConditionalChildren\<close>: the loop over \<^verbatim>\<open>childrenTypes\<close> returns true
  at the first entry that is a conditional-true or conditional-false edge, and
  false when it runs off the end.
\<close>

fun hasConditionalChildren_loop :: "BlockEdgeType list \<Rightarrow> bool" where
  "hasConditionalChildren_loop [] = False"
| "hasConditionalChildren_loop (t # ts) =
     (if t = kBlockEdgeTypeConditionalTrue \<or> t = kBlockEdgeTypeConditionalFalse
      then True
      else hasConditionalChildren_loop ts)"

definition hasConditionalChildren :: "Block \<Rightarrow> bool" where
  "hasConditionalChildren b = hasConditionalChildren_loop (childrenTypes b)"

text \<open>
  \<^verbatim>\<open>Block::hasUnconditionalChildren\<close>: two tests in the order of the source. Each
  index is read only behind the size test that guards it.
\<close>

definition hasUnconditionalChildren :: "Block \<Rightarrow> bool" where
  "hasUnconditionalChildren b =
     (if length (childrenTypes b) = 1 \<and>
         childrenTypes b ! 0 = kBlockEdgeTypeUnconditional
      then True
      else if length (childrenTypes b) = 2 \<and>
         (childrenTypes b ! 0 = kBlockEdgeTypeDead \<or>
          childrenTypes b ! 1 = kBlockEdgeTypeDead)
      then True
      else False)"

text \<open>
  Counting a block's child edges by tag: the edges tagged with one given type,
  the dead edges and the live (non-dead) edges.
\<close>

definition edgesOfType :: "BlockEdgeType \<Rightarrow> Block \<Rightarrow> nat" where
  "edgesOfType t b = length (filter (\<lambda>u. u = t) (childrenTypes b))"

definition deadEdges :: "Block \<Rightarrow> nat" where
  "deadEdges b = edgesOfType kBlockEdgeTypeDead b"

definition liveEdges :: "Block \<Rightarrow> nat" where
  "liveEdges b = length (filter (\<lambda>u. u \<noteq> kBlockEdgeTypeDead) (childrenTypes b))"

text \<open>
  The reading of \<^verbatim>\<open>hasUnconditionalChildren\<close> in the specification, word for word:
  exactly one child edge and it is live, or exactly two child edges of which
  exactly one is dead and one is live.
\<close>

definition oneLiveOrOneDeadOneLive :: "Block \<Rightarrow> bool" where
  "oneLiveOrOneDeadOneLive b =
     ((length (childrenTypes b) = 1 \<and> liveEdges b = 1) \<or>
      (length (childrenTypes b) = 2 \<and> deadEdges b = 1 \<and> liveEdges b = 1))"

section \<open>Block graph utilities declared in block.h\<close>

subsection \<open>Edge lookup\<close>

text \<open>
  The memory that holds the blocks: what is stored at each block address. The
  references \<^verbatim>\<open>const Block &parent\<close> and \<^verbatim>\<open>const Block &child\<close> are block addresses;
  two different addresses may hold blocks with equal contents.
\<close>

type_synonym block_store = "block_ptr \<Rightarrow> Block"

text \<open>
  \<^verbatim>\<open>SIZE_MAX\<close> of the C library: the largest value of \<^verbatim>\<open>size_t\<close>, all bits set. The
  width of \<^verbatim>\<open>size_t\<close> depends on the platform, so it stays a type parameter.
\<close>

definition SIZE_MAX :: "'a::len word" where
  "SIZE_MAX = - 1"

text \<open>
  Modelled from the spec: the body of \<^verbatim>\<open>findParentChildBlock\<close> (block.cpp) is missing;
  block.h declares it as \<^verbatim>\<open>size_t findParentChildBlock(const Block &parent, const Block &child)\<close>
  with the comment "Find the index of a block within another block's children.
  If this child does not exist within the parent's children, return SIZE_MAX."
  The spec adds that the lookup returns the child's position in the parent's
  children list and matches by identity, not by the contents of the blocks. The
  children list holds block addresses (\<^verbatim>\<open>std::vector<const Block *>\<close>), so the
  scan compares each entry with the address of the child and returns the position
  of the first entry that is equal.
\<close>

fun findParentChildBlock_from :: "nat \<Rightarrow> block_ptr list \<Rightarrow> block_ptr \<Rightarrow> nat option" where
  "findParentChildBlock_from i [] child = None"
| "findParentChildBlock_from i (c # cs) child =
     (if c = child then Some i else findParentChildBlock_from (Suc i) cs child)"

definition findParentChildBlock :: "block_store \<Rightarrow> block_ptr \<Rightarrow> block_ptr \<Rightarrow> 'a::len word" where
  "findParentChildBlock mem parent child =
     (case findParentChildBlock_from 0 (children (mem parent)) child of
        Some i \<Rightarrow> of_nat i
      | None \<Rightarrow> SIZE_MAX)"

text \<open>
  A store for the examples: the block at address 1 has the single child 2; every
  other address, 2 and 3 among them, holds a fresh block for bytecode address 7.
\<close>

definition exampleStore :: block_store where
  "exampleStore p =
     (if p = 1
      then (Block_new 0)\<lparr> children := [2], childrenTypes := [kBlockEdgeTypeUnconditional] \<rparr>
      else Block_new 7)"

subsection \<open>Dead-edge detection\<close>

text \<open>\<^verbatim>\<open>typedef std::deque<Block> Blocks\<close>: the blocks of a script, in order.\<close>

type_synonym Blocks = "Block list"

text \<open>
  Modelled from the spec: the body of \<^verbatim>\<open>findDeadBlockEdges\<close> (block.cpp) is missing;
  block.h declares \<^verbatim>\<open>void findDeadBlockEdges(Blocks &blocks)\<close> with the comment "find
  edges between blocks that are logically dead and will never be taken. Updates
  their edge type kBlockEdgeTypeDead." The spec describes "a pass over all blocks'
  conditional edge pairs; for any true/false pair where one branch is proven never
  reachable [...], retag that edge as dead in place", and leaves open how a branch
  is proven never reachable. That test is therefore the parameter
  \<open>neverReachable blocks i e\<close>: in the block set as it stands, edge \<open>e\<close> of block
  \<open>i\<close> is proven never reachable.

  A conditional pair is a true edge and a false edge, in either order.
\<close>

definition isConditionalPair :: "Block \<Rightarrow> bool" where
  "isConditionalPair b =
     (childrenTypes b = [kBlockEdgeTypeConditionalTrue, kBlockEdgeTypeConditionalFalse] \<or>
      childrenTypes b = [kBlockEdgeTypeConditionalFalse, kBlockEdgeTypeConditionalTrue])"

text \<open>
  Modelled from the spec: retagging edge \<open>e\<close> of block \<open>i\<close> as dead in place, the
  one update \<^verbatim>\<open>findDeadBlockEdges\<close> makes.
\<close>

definition retagDead :: "Blocks \<Rightarrow> nat \<Rightarrow> nat \<Rightarrow> Blocks" where
  "retagDead blocks i e =
     blocks[i := (blocks ! i)
       \<lparr> childrenTypes := (childrenTypes (blocks ! i))[e := kBlockEdgeTypeDead] \<rparr>]"

text \<open>
  Modelled from the spec: the step of \<^verbatim>\<open>findDeadBlockEdges\<close> for block \<open>i\<close>. Only a
  true/false pair is looked at, and the one branch proven never reachable is
  retagged.
\<close>

definition findDeadBlockEdges_block ::
  "(Blocks \<Rightarrow> nat \<Rightarrow> nat \<Rightarrow> bool) \<Rightarrow> Blocks \<Rightarrow> nat \<Rightarrow> Blocks" where
  "findDeadBlockEdges_block neverReachable blocks i =
     (if i < length blocks \<and> isConditionalPair (blocks ! i) then
        if neverReachable blocks i 0 then retagDead blocks i 0
        else if neverReachable blocks i 1 then retagDead blocks i 1
        else blocks
      else blocks)"

text \<open>
  Modelled from the spec: \<^verbatim>\<open>findDeadBlockEdges\<close>, the pass over all blocks in order,
  each step working on the block set the steps before it left.
\<close>

definition findDeadBlockEdges :: "(Blocks \<Rightarrow> nat \<Rightarrow> nat \<Rightarrow> bool) \<Rightarrow> Blocks \<Rightarrow> Blocks" where
  "findDeadBlockEdges neverReachable blocks =
     fold (\<lambda>i bs. findDeadBlockEdges_block neverReachable bs i) [0 ..< length blocks] blocks"

text \<open>
  What the pass may do to a tag (keep it or make it dead) and to a block (change
  nothing but tags), as relations between the block after and the block before.
\<close>

definition tagKeptOrDead :: "BlockEdgeType \<Rightarrow> BlockEdgeType \<Rightarrow> bool" where
  "tagKeptOrDead t' t = (t' = t \<or> t' = kBlockEdgeTypeDead)"

definition sameShape :: "Block \<Rightarrow> Block \<Rightarrow> bool" where
  "sameShape b' b =
     (address b' = address b \<and> instructions b' = instructions b \<and>
      parents b' = parents b \<and> children b' = children b \<and>
      subRoutine b' = subRoutine b \<and> stackAnalyzeState b' = stackAnalyzeState b \<and>
      list_all2 tagKeptOrDead (childrenTypes b') (childrenTypes b))"

text \<open>
  The scenario of the spec: the block at bytecode address 0 (slot 0) branches to
  address 10 (slot 2) when true and falls through to address 5 (slot 1) when
  false, and the false branch is the one proven never reachable.
\<close>

definition exampleBlocks :: Blocks where
  "exampleBlocks =
     [ (Block_new 0)\<lparr> children := [2, 1],
         childrenTypes := [kBlockEdgeTypeConditionalTrue, kBlockEdgeTypeConditionalFalse] \<rparr>,
       (Block_new 5)\<lparr> parents := [0] \<rparr>,
       (Block_new 10)\<lparr> parents := [0] \<rparr> ]"

definition exampleNeverReachable :: "Blocks \<Rightarrow> nat \<Rightarrow> nat \<Rightarrow> bool" where
  "exampleNeverReachable blocks i e = (i = 0 \<and> e = 1)"

section \<open>Properties\<close>

subsection \<open>Helper lemmas\<close>

lemma hasConditionalChildren_loop_iff:
  "hasConditionalChildren_loop ts \<longleftrightarrow>
     (\<exists>t \<in> set ts. t = kBlockEdgeTypeConditionalTrue \<or> t = kBlockEdgeTypeConditionalFalse)"
  by (induction ts) auto

lemma length_one_conv: "length xs = Suc 0 \<longleftrightarrow> (\<exists>x. xs = [x])"
  by (cases xs) auto

lemma length_two_conv: "length xs = 2 \<longleftrightarrow> (\<exists>x y. xs = [x, y])"
proof
  assume "length xs = 2"
  then obtain x ys where xs: "xs = x # ys" and "length ys = Suc 0"
    by (cases xs) auto
  then obtain y where "ys = [y]"
    by (auto simp: length_one_conv)
  with xs show "\<exists>x y. xs = [x, y]" by blast
next
  assume "\<exists>x y. xs = [x, y]"
  then show "length xs = 2" by auto
qed

subsection \<open>C1: what hasUnconditionalChildren decides\<close>

text \<open>
  C1, as amended. For every block, \<^verbatim>\<open>hasUnconditionalChildren\<close> is true if and only
  if the block has exactly one child edge and that edge is tagged unconditional,
  or it has exactly two child edges of which at least one is tagged dead.
\<close>

theorem hasUnconditionalChildren_iff:
  "hasUnconditionalChildren b \<longleftrightarrow>
     (length (childrenTypes b) = 1 \<and> edgesOfType kBlockEdgeTypeUnconditional b = 1) \<or>
     (length (childrenTypes b) = 2 \<and> 1 \<le> deadEdges b)"
proof (cases "length (childrenTypes b) = 1")
  case True
  then obtain t where "childrenTypes b = [t]"
    by (auto simp: length_one_conv)
  then show ?thesis
    by (simp add: hasUnconditionalChildren_def edgesOfType_def deadEdges_def)
next
  case one: False
  show ?thesis
  proof (cases "length (childrenTypes b) = 2")
    case True
    then obtain t u where "childrenTypes b = [t, u]"
      by (auto simp: length_two_conv)
    then show ?thesis
      by (auto simp: hasUnconditionalChildren_def edgesOfType_def deadEdges_def)
  next
    case False
    with one show ?thesis
      by (simp add: hasUnconditionalChildren_def)
  qed
qed

text \<open>
  C1 as the specification states it fails in both directions. A block whose only
  child edge is a function call has exactly one child edge and that edge is live,
  and the function returns false; a block whose two child edges are both dead has
  no live child edge, and the function returns true.
\<close>

theorem hasUnconditionalChildren_counterexample:
  "length (childrenTypes
     ((Block_new 0)\<lparr> children := [1], childrenTypes := [kBlockEdgeTypeFunctionCall] \<rparr>)) = 1 \<and>
   liveEdges
     ((Block_new 0)\<lparr> children := [1], childrenTypes := [kBlockEdgeTypeFunctionCall] \<rparr>) = 1 \<and>
   oneLiveOrOneDeadOneLive
     ((Block_new 0)\<lparr> children := [1], childrenTypes := [kBlockEdgeTypeFunctionCall] \<rparr>) \<and>
   \<not> hasUnconditionalChildren
     ((Block_new 0)\<lparr> children := [1], childrenTypes := [kBlockEdgeTypeFunctionCall] \<rparr>) \<and>
   liveEdges
     ((Block_new 0)\<lparr> children := [1, 2],
        childrenTypes := [kBlockEdgeTypeDead, kBlockEdgeTypeDead] \<rparr>) = 0 \<and>
   \<not> oneLiveOrOneDeadOneLive
     ((Block_new 0)\<lparr> children := [1, 2],
        childrenTypes := [kBlockEdgeTypeDead, kBlockEdgeTypeDead] \<rparr>) \<and>
   hasUnconditionalChildren
     ((Block_new 0)\<lparr> children := [1, 2],
        childrenTypes := [kBlockEdgeTypeDead, kBlockEdgeTypeDead] \<rparr>)"
  by (simp add: oneLiveOrOneDeadOneLive_def hasUnconditionalChildren_def liveEdges_def
      deadEdges_def edgesOfType_def Block_new_def)

subsection \<open>C10: what hasConditionalChildren decides\<close>

text \<open>
  C10. For every block, \<^verbatim>\<open>hasConditionalChildren\<close> is true if and only if at least
  one entry of \<^verbatim>\<open>childrenTypes\<close> is conditional-true or conditional-false. So for a
  block with a conditional pair of which one edge was retagged dead (the other
  edge still conditional-true or conditional-false), \<^verbatim>\<open>hasConditionalChildren\<close> and
  \<^verbatim>\<open>hasUnconditionalChildren\<close> are both true: the two do not exclude each other.
\<close>

theorem hasConditionalChildren_iff:
  "(hasConditionalChildren b \<longleftrightarrow>
      (\<exists>t \<in> set (childrenTypes b).
         t = kBlockEdgeTypeConditionalTrue \<or> t = kBlockEdgeTypeConditionalFalse)) \<and>
   ((t = kBlockEdgeTypeConditionalTrue \<or> t = kBlockEdgeTypeConditionalFalse) \<and>
    (childrenTypes b = [t, kBlockEdgeTypeDead] \<or> childrenTypes b = [kBlockEdgeTypeDead, t])
      \<longrightarrow> hasConditionalChildren b \<and> hasUnconditionalChildren b)"
proof (intro conjI impI)
  show iff: "hasConditionalChildren b \<longleftrightarrow>
      (\<exists>t \<in> set (childrenTypes b).
         t = kBlockEdgeTypeConditionalTrue \<or> t = kBlockEdgeTypeConditionalFalse)"
    by (simp add: hasConditionalChildren_def hasConditionalChildren_loop_iff)
  assume pair: "(t = kBlockEdgeTypeConditionalTrue \<or> t = kBlockEdgeTypeConditionalFalse) \<and>
    (childrenTypes b = [t, kBlockEdgeTypeDead] \<or> childrenTypes b = [kBlockEdgeTypeDead, t])"
  then have "t \<in> set (childrenTypes b)" by auto
  with pair show "hasConditionalChildren b" unfolding iff by blast
  from pair show "hasUnconditionalChildren b"
    by (auto simp: hasUnconditionalChildren_def)
qed

text \<open>
  The witness: the block at address 0 branches to 10 (true) and 5 (false), and
  the false edge was retagged dead.
\<close>

theorem hasConditionalChildren_iff_witness:
  "hasConditionalChildren
     ((Block_new 0)\<lparr> children := [10, 5],
        childrenTypes := [kBlockEdgeTypeConditionalTrue, kBlockEdgeTypeDead] \<rparr>) \<and>
   hasUnconditionalChildren
     ((Block_new 0)\<lparr> children := [10, 5],
        childrenTypes := [kBlockEdgeTypeConditionalTrue, kBlockEdgeTypeDead] \<rparr>)"
  using hasConditionalChildren_iff
    [of "(Block_new 0)\<lparr> children := [10, 5],
        childrenTypes := [kBlockEdgeTypeConditionalTrue, kBlockEdgeTypeDead] \<rparr>"
        kBlockEdgeTypeConditionalTrue]
  by simp

subsection \<open>C6: the index of a child among a parent's children\<close>

lemma findParentChildBlock_from_None: "findParentChildBlock_from i cs c = None \<longleftrightarrow> c \<notin> set cs"
  by (induction cs arbitrary: i) auto

lemma findParentChildBlock_from_Some:
  "findParentChildBlock_from i cs c = Some k \<Longrightarrow>
     \<exists>n. k = i + n \<and> n < length cs \<and> cs ! n = c \<and> (\<forall>j < n. cs ! j \<noteq> c)"
proof (induction cs arbitrary: i)
  case Nil
  then show ?case by simp
next
  case (Cons x xs)
  show ?case
  proof (cases "x = c")
    case True
    with Cons.prems show ?thesis by auto
  next
    case False
    with Cons.prems have "findParentChildBlock_from (Suc i) xs c = Some k" by simp
    from Cons.IH [OF this] obtain n where
      n: "k = Suc i + n" "n < length xs" "xs ! n = c" "\<forall>j < n. xs ! j \<noteq> c"
      by blast
    have "\<forall>j < Suc n. (x # xs) ! j \<noteq> c"
      using False n(4) by (auto simp: nth_Cons split: nat.splits)
    with n show ?thesis
      by (intro exI [of _ "Suc n"]) simp
  qed
qed

lemma unat_SIZE_MAX: "unat (SIZE_MAX :: 'a::len word) = 2 ^ LENGTH('a) - 1"
  by (simp add: SIZE_MAX_def unsigned_minus_1_eq_mask mask_eq_exp_minus_1)

text \<open>
  C6. A \<^verbatim>\<open>std::vector\<close> never holds \<^verbatim>\<open>SIZE_MAX\<close> or more entries, which is the only
  assumption. When the child's address occurs among the parent's children,
  \<^verbatim>\<open>findParentChildBlock\<close> returns an index into the children list, the entry at
  that index is the child, no earlier entry is, and the result is not
  \<^verbatim>\<open>SIZE_MAX\<close>; when it does not occur, the result is \<^verbatim>\<open>SIZE_MAX\<close>. The match is by
  address: a block \<open>other\<close> with the very contents of a child, stored at an address
  that is not among the children, is not found.
\<close>

theorem findParentChildBlock_index:
  fixes mem :: block_store
  assumes "length (children (mem parent)) < unat (SIZE_MAX :: 'a::len word)"
  shows
   "(child \<in> set (children (mem parent)) \<longrightarrow>
       unat (findParentChildBlock mem parent child :: 'a word) < length (children (mem parent)) \<and>
       children (mem parent) ! unat (findParentChildBlock mem parent child :: 'a word) = child \<and>
       (\<forall>j < unat (findParentChildBlock mem parent child :: 'a word). children (mem parent) ! j \<noteq> child) \<and>
       (findParentChildBlock mem parent child :: 'a word) \<noteq> SIZE_MAX) \<and>
    (child \<notin> set (children (mem parent)) \<longrightarrow>
       (findParentChildBlock mem parent child :: 'a word) = SIZE_MAX) \<and>
    (mem other = mem child \<and> child \<in> set (children (mem parent)) \<and>
     other \<notin> set (children (mem parent)) \<longrightarrow>
       (findParentChildBlock mem parent child :: 'a word) \<noteq> SIZE_MAX \<and>
       (findParentChildBlock mem parent other :: 'a word) = SIZE_MAX)"
proof -
  let ?cs = "children (mem parent)"
  have absent: "(findParentChildBlock mem parent c :: 'a word) = SIZE_MAX" if "c \<notin> set ?cs" for c
    using that by (simp add: findParentChildBlock_def findParentChildBlock_from_None [THEN iffD2])
  have present: "unat (findParentChildBlock mem parent c :: 'a word) < length ?cs \<and>
       ?cs ! unat (findParentChildBlock mem parent c :: 'a word) = c \<and>
       (\<forall>j < unat (findParentChildBlock mem parent c :: 'a word). ?cs ! j \<noteq> c) \<and>
       (findParentChildBlock mem parent c :: 'a word) \<noteq> SIZE_MAX" if "c \<in> set ?cs" for c
  proof -
    from that obtain k where k: "findParentChildBlock_from 0 ?cs c = Some k"
      using findParentChildBlock_from_None [of 0 ?cs c] by (cases "findParentChildBlock_from 0 ?cs c") auto
    from findParentChildBlock_from_Some [OF k] have props: "k < length ?cs" "?cs ! k = c" "\<forall>j < k. ?cs ! j \<noteq> c"
      by auto
    have r: "(findParentChildBlock mem parent c :: 'a word) = of_nat k"
      by (simp add: findParentChildBlock_def k)
    from props(1) assms have lt: "k < 2 ^ LENGTH('a) - 1"
      by (simp add: unat_SIZE_MAX)
    then have u: "unat (of_nat k :: 'a word) = k"
      by (simp add: unat_of_nat)
    have "(of_nat k :: 'a word) \<noteq> SIZE_MAX"
    proof
      assume "(of_nat k :: 'a word) = SIZE_MAX"
      then have "unat (of_nat k :: 'a word) = unat (SIZE_MAX :: 'a word)" by simp
      with u lt show False by (simp add: unat_SIZE_MAX)
    qed
    with props u r show ?thesis by simp
  qed
  from absent present show ?thesis by blast
qed

text \<open>
  The witness: in the example store the blocks at addresses 2 and 3 have equal
  contents; 2 is the child at index 0 of the block at address 1, and 3 is not
  found.
\<close>

theorem findParentChildBlock_index_witness:
  "exampleStore 3 = exampleStore 2 \<and>
   (findParentChildBlock exampleStore 1 2 :: 64 word) = 0 \<and>
   (findParentChildBlock exampleStore 1 3 :: 64 word) = SIZE_MAX"
proof -
  have len: "length (children (exampleStore 1)) < unat (SIZE_MAX :: 64 word)"
    by (simp add: exampleStore_def unat_SIZE_MAX)
  have "(findParentChildBlock exampleStore 1 2 :: 64 word) = 0"
    by (simp add: findParentChildBlock_def exampleStore_def)
  with len findParentChildBlock_index
    [where mem = exampleStore and parent = 1 and child = 2 and other = 3 and ?'a = 64]
  show ?thesis
    by (simp add: exampleStore_def)
qed

subsection \<open>C8: dead-edge detection changes tags only\<close>

lemma tagKeptOrDead_refl: "list_all2 tagKeptOrDead ts ts"
  by (simp add: list_all2_refl tagKeptOrDead_def)

lemma sameShape_refl: "list_all2 sameShape bs bs"
  by (simp add: list_all2_refl sameShape_def tagKeptOrDead_refl)

lemma tagKeptOrDead_trans:
  assumes "list_all2 tagKeptOrDead ts'' ts'" and "list_all2 tagKeptOrDead ts' ts"
  shows "list_all2 tagKeptOrDead ts'' ts"
proof (rule list_all2_trans [OF _ assms])
  fix a b c
  assume "tagKeptOrDead a b" and "tagKeptOrDead b c"
  then show "tagKeptOrDead a c" by (auto simp: tagKeptOrDead_def)
qed

lemma sameShape_trans:
  assumes "list_all2 sameShape bs'' bs'" and "list_all2 sameShape bs' bs"
  shows "list_all2 sameShape bs'' bs"
proof (rule list_all2_trans [OF _ assms])
  fix a b c
  assume "sameShape a b" and "sameShape b c"
  then show "sameShape a c" by (auto simp: sameShape_def intro: tagKeptOrDead_trans)
qed

lemma retagDead_sameShape: "list_all2 sameShape (retagDead bs i e) bs"
proof -
  have "list_all2 tagKeptOrDead ((childrenTypes (bs ! i))[e := kBlockEdgeTypeDead])
          ((childrenTypes (bs ! i))[e := childrenTypes (bs ! i) ! e])"
    by (rule list_all2_update_cong) (simp_all add: tagKeptOrDead_refl tagKeptOrDead_def)
  then have "sameShape
      ((bs ! i)\<lparr> childrenTypes := (childrenTypes (bs ! i))[e := kBlockEdgeTypeDead] \<rparr>) (bs ! i)"
    by (simp add: sameShape_def)
  then have "list_all2 sameShape (retagDead bs i e) (bs[i := bs ! i])"
    unfolding retagDead_def by (intro list_all2_update_cong sameShape_refl)
  then show ?thesis by simp
qed

lemma findDeadBlockEdges_block_sameShape:
  "list_all2 sameShape (findDeadBlockEdges_block nr bs i) bs"
  by (simp add: findDeadBlockEdges_block_def retagDead_sameShape sameShape_refl)

lemma fold_sameShape:
  "list_all2 sameShape (fold (\<lambda>i bs. findDeadBlockEdges_block nr bs i) is bs) bs"
proof (induction "is" arbitrary: bs)
  case Nil
  show ?case by (simp add: sameShape_refl)
next
  case (Cons i "is")
  from Cons.IH [of "findDeadBlockEdges_block nr bs i"]
    findDeadBlockEdges_block_sameShape [of nr bs i]
  show ?case by (auto intro: sameShape_trans)
qed

lemma sameShape_only_tags:
  "sameShape b' b \<Longrightarrow> b' = b\<lparr> childrenTypes := childrenTypes b' \<rparr>"
  by (simp add: sameShape_def)

lemma sameShape_map:
  assumes "list_all2 sameShape bs' bs"
  shows "map address bs' = map address bs" "map instructions bs' = map instructions bs"
    "map parents bs' = map parents bs" "map children bs' = map children bs"
    "map subRoutine bs' = map subRoutine bs"
    "map stackAnalyzeState bs' = map stackAnalyzeState bs"
    "map (\<lambda>b. length (childrenTypes b)) bs' = map (\<lambda>b. length (childrenTypes b)) bs"
    "list_all2 (\<lambda>b' b. list_all2 (\<lambda>t' t. t' = t \<or> t' = kBlockEdgeTypeDead)
        (childrenTypes b') (childrenTypes b)) bs' bs"
    "list_all2 (\<lambda>b' b. b' = b\<lparr> childrenTypes := childrenTypes b' \<rparr>) bs' bs"
  using assms
  by (induction rule: list_all2_induct)
     (auto simp: sameShape_def tagKeptOrDead_def [abs_def] dest: list_all2_lengthD)

text \<open>
  The pass does retag: in the example the false edge of the block in slot 0
  becomes dead, and the block then has unconditional children.
\<close>

lemma findDeadBlockEdges_example:
  "map childrenTypes (findDeadBlockEdges exampleNeverReachable exampleBlocks) =
     [[kBlockEdgeTypeConditionalTrue, kBlockEdgeTypeDead], [], []] \<and>
   \<not> hasUnconditionalChildren (exampleBlocks ! 0) \<and>
   hasUnconditionalChildren (findDeadBlockEdges exampleNeverReachable exampleBlocks ! 0)"
  by (simp add: findDeadBlockEdges_def findDeadBlockEdges_block_def retagDead_def
      isConditionalPair_def exampleBlocks_def exampleNeverReachable_def Block_new_def
      hasUnconditionalChildren_def upt_rec [of 0])

text \<open>
  C8. Whatever proves a branch never reachable, \<^verbatim>\<open>findDeadBlockEdges\<close> changes
  edge-type tags only, and only to dead. It leaves the number of blocks and, block
  for block, the address, the instruction list, the parents list, the children
  list, the subroutine, the stack-analysis marker and the number of edge tags as
  they were; every edge tag is either what it was or dead; and every block after
  the pass is the block before it with nothing but its tags replaced.
\<close>

theorem findDeadBlockEdges_frame:
  "length (findDeadBlockEdges neverReachable blocks) = length blocks \<and>
   map address (findDeadBlockEdges neverReachable blocks) = map address blocks \<and>
   map instructions (findDeadBlockEdges neverReachable blocks) = map instructions blocks \<and>
   map parents (findDeadBlockEdges neverReachable blocks) = map parents blocks \<and>
   map children (findDeadBlockEdges neverReachable blocks) = map children blocks \<and>
   map subRoutine (findDeadBlockEdges neverReachable blocks) = map subRoutine blocks \<and>
   map stackAnalyzeState (findDeadBlockEdges neverReachable blocks) =
     map stackAnalyzeState blocks \<and>
   map (\<lambda>b. length (childrenTypes b)) (findDeadBlockEdges neverReachable blocks) =
     map (\<lambda>b. length (childrenTypes b)) blocks \<and>
   list_all2 (\<lambda>b' b. list_all2 (\<lambda>t' t. t' = t \<or> t' = kBlockEdgeTypeDead)
        (childrenTypes b') (childrenTypes b))
     (findDeadBlockEdges neverReachable blocks) blocks \<and>
   list_all2 (\<lambda>b' b. b' = b\<lparr> childrenTypes := childrenTypes b' \<rparr>)
     (findDeadBlockEdges neverReachable blocks) blocks"
proof -
  have shape: "list_all2 sameShape (findDeadBlockEdges neverReachable blocks) blocks"
    unfolding findDeadBlockEdges_def by (rule fold_sameShape)
  from sameShape_map [OF shape] list_all2_lengthD [OF shape]
  show ?thesis by simp
qed

end
